theory Spec2Isabelle
  imports Complex_Main "HOL-Library.Multiset"
begin

section \<open>Data model\<close>

text \<open>
  The structs of \<^verbatim>\<open>main.go\<close> are records with the Go field names. Where two structs share
  a field name the selectors are written qualified (\<open>Landmark.Name\<close>,
  \<open>LandmarksResponse.Message\<close>), as Go qualifies them by the receiver's type.

  Numbers: \<^verbatim>\<open>float64\<close> and \<^verbatim>\<open>float32\<close> values are idealised as \<^typ>\<open>real\<close>, so
  \<^verbatim>\<open>math.Sin\<close>, \<^verbatim>\<open>math.Cos\<close>, \<^verbatim>\<open>math.Sqrt\<close> and \<^verbatim>\<open>math.Log10\<close> are the exact
  real functions; rounding, infinities and NaN are outside this model. Two lemmas below,
  marked as exact arithmetic, hold for real numbers and fail in \<^verbatim>\<open>float64\<close> where a
  distance is NaN. Go's \<^verbatim>\<open>int\<close> is
  \<^typ>\<open>int\<close>. Strings are byte lists.

  \<^verbatim>\<open>Location\<close> of \<^verbatim>\<open>main.go\<close> and \<^verbatim>\<open>maps.LatLng\<close> of the client library both consist of
  the two \<^verbatim>\<open>float64\<close> fields \<^verbatim>\<open>Lat\<close> and \<^verbatim>\<open>Lng\<close>; one record serves for both.
\<close>

record LatLng =
  Lat :: real
  Lng :: real

type_synonym Location = LatLng

record Details =
  PinCode :: string
  City :: string
  State :: string
  Country :: string
  FormattedAddress :: string

record ValidationResponse =
  Valid :: bool
  Message :: string
  Suggestions :: "string list"
  Details :: "Details option"

record Landmark =
  Name :: string
  Address :: string
  Distance :: real
  PlaceID :: string
  Types :: "string list"
  Location :: Location
  Rating :: real
  UserRatings :: int
  PopScore :: real

record LandmarksResponse =
  Success :: bool
  Message :: string
  Landmarks :: "Landmark list"
  Location :: Location

subsection \<open>The types of the maps client library\<close>

text \<open>
  Only the fields that \<^verbatim>\<open>main.go\<close> reads or writes are modelled. A Go map literal with one
  entry is an association list.
\<close>

record AddressComponent =
  LongName :: string
  Types :: "string list"

record AddressGeometry =
  Location :: LatLng

record GeocodingResult =
  AddressComponents :: "AddressComponent list"
  FormattedAddress :: string
  Geometry :: AddressGeometry

record PlacesSearchResult =
  Name :: string
  Vicinity :: string
  PlaceID :: string
  Types :: "string list"
  Rating :: real
  UserRatingsTotal :: int
  Geometry :: AddressGeometry

datatype Component = ComponentPostalCode

record GeocodingRequest =
  Address :: string
  Components :: "(Component \<times> string) list"

record NearbySearchRequest =
  Location :: LatLng
  Radius :: nat
  Type :: string

subsection \<open>The collaborator and the calls made to it\<close>

text \<open>
  \<^verbatim>\<open>s.mapsClient\<close> is the only effect of the two operations. Every call is appended to a
  trace; the client's answer may depend on the calls made before it. A Go \<^verbatim>\<open>error\<close> is
  its message, and a fallible call returns \<open>Inl\<close> of it. A context that times out is one
  more way for the client to answer \<open>Inl\<close>.
\<close>

datatype call = GeocodeCall GeocodingRequest | NearbySearchCall NearbySearchRequest

type_synonym error = string

record Client =
  Geocode :: "call list \<Rightarrow> GeocodingRequest \<Rightarrow> error + GeocodingResult list"
  NearbySearch :: "call list \<Rightarrow> NearbySearchRequest \<Rightarrow> error + PlacesSearchResult list"

section \<open>Library functions on strings\<close>

text \<open>
  \<^verbatim>\<open>strings.Contains\<close> is containment of a contiguous run of bytes. \<^verbatim>\<open>strings.TrimSpace\<close>
  and \<^verbatim>\<open>strings.ToLower\<close> are given on ASCII text: the white space is tab, line feed,
  vertical tab, form feed, carriage return and space, and only \<^verbatim>\<open>A\<close> to \<^verbatim>\<open>Z\<close> change
  case (Go also knows the white space and the capital letters beyond ASCII). The general
  theorems below hold whichever bytes are white space or capital; only their instances
  at concrete strings evaluate the two functions.
\<close>

fun hasPrefix :: "string \<Rightarrow> string \<Rightarrow> bool" where
  "hasPrefix s [] = True"
| "hasPrefix [] (p # ps) = False"
| "hasPrefix (x # xs) (p # ps) = (x = p \<and> hasPrefix xs ps)"

fun Contains :: "string \<Rightarrow> string \<Rightarrow> bool" where
  "Contains [] substr = hasPrefix [] substr"
| "Contains (x # xs) substr = (hasPrefix (x # xs) substr \<or> Contains xs substr)"

definition isSpace :: "char \<Rightarrow> bool" where
  "isSpace ch = (ch \<in> set [CHR 0x09, CHR 0x0A, CHR 0x0B, CHR 0x0C, CHR 0x0D, CHR 0x20])"

definition TrimSpace :: "string \<Rightarrow> string" where
  "TrimSpace s = rev (dropWhile isSpace (rev (dropWhile isSpace s)))"

definition toLowerByte :: "char \<Rightarrow> char" where
  "toLowerByte ch =
     (let n = (of_char ch :: nat) in if 65 \<le> n \<and> n \<le> 90 then char_of (n + 32) else ch)"

definition ToLower :: "string \<Rightarrow> string" where
  "ToLower s = map toLowerByte s"

section \<open>ValidatePinCodeWithCity\<close>

text \<open>
  The variables declared before the loop over the geocoding results (lines 120 and 121).
  They are declared once, outside the loop, and so keep their values from one result to
  the next.
\<close>

record locals =
  foundCity :: string
  foundState :: string
  foundCountry :: string
  formattedAddress :: string

definition zeroLocals :: locals where
  "zeroLocals = \<lparr>foundCity = [], foundState = [], foundCountry = [], formattedAddress = []\<rparr>"

text \<open>The \<^verbatim>\<open>switch typ\<close> of lines 127 to 136, for one type tag of one component.\<close>

definition switchTyp :: "AddressComponent \<Rightarrow> string \<Rightarrow> locals \<Rightarrow> locals" where
  "switchTyp component typ v =
     (if typ = ''locality'' \<or> typ = ''administrative_area_level_2'' then
        (if foundCity v = [] then v\<lparr>foundCity := ToLower (LongName component)\<rparr> else v)
      else if typ = ''administrative_area_level_1'' then v\<lparr>foundState := LongName component\<rparr>
      else if typ = ''country'' then v\<lparr>foundCountry := LongName component\<rparr>
      else v)"

text \<open>
  Lines 124 to 138: the body of the loop over the results, up to the match test. The two
  inner \<^verbatim>\<open>for ... range\<close> loops are folds over the components and over their type tags.
\<close>

definition scanResult :: "GeocodingResult \<Rightarrow> locals \<Rightarrow> locals" where
  "scanResult result v =
     fold (\<lambda>component. fold (switchTyp component) (AddressComponent.Types component))
       (AddressComponents result)
       (v\<lparr>formattedAddress := GeocodingResult.FormattedAddress result\<rparr>)"

definition detailsOf :: "string \<Rightarrow> locals \<Rightarrow> Details" where
  "detailsOf pinCode v =
     \<lparr>PinCode = pinCode, City = foundCity v, State = foundState v,
      Country = foundCountry v, Details.FormattedAddress = formattedAddress v\<rparr>"

text \<open>
  Lines 123 to 173: the loop over the results with its early return, and the mismatch
  response built after the loop.
\<close>

fun resultsLoop :: "string \<Rightarrow> string \<Rightarrow> GeocodingResult list \<Rightarrow> locals \<Rightarrow> ValidationResponse" where
  "resultsLoop pinCode city [] v =
     \<lparr>Valid = False,
      ValidationResponse.Message = ''PIN code '' @ pinCode @ '' does not belong to '' @ city,
      Suggestions = (if foundCity v \<noteq> [] then [foundCity v] else []),
      Details = Some (detailsOf pinCode v)\<rparr>"
| "resultsLoop pinCode city (result # rest) v =
     (let v' = scanResult result v in
      if Contains (foundCity v') city \<or> Contains city (foundCity v') then
        \<lparr>Valid = True,
         ValidationResponse.Message = ''PIN code and city match successfully'',
         Suggestions = [],
         Details = Some (detailsOf pinCode v')\<rparr>
      else resultsLoop pinCode city rest v')"

definition pinCodeRequest :: "string \<Rightarrow> GeocodingRequest" where
  "pinCodeRequest pinCode = \<lparr>Address = pinCode, Components = [(ComponentPostalCode, pinCode)]\<rparr>"

definition ValidatePinCodeWithCity ::
  "Client \<Rightarrow> call list \<Rightarrow> string \<Rightarrow> string \<Rightarrow> (error + ValidationResponse) \<times> call list" where
  "ValidatePinCodeWithCity s trace pinCode0 city0 =
     (let pinCode = TrimSpace pinCode0;
          city = ToLower (TrimSpace city0)
      in if pinCode = [] \<or> city = [] then
           (Inr \<lparr>Valid = False, ValidationResponse.Message = ''PIN code and city are required'',
                 Suggestions = [], Details = None\<rparr>, trace)
         else
           let geocodeReq = pinCodeRequest pinCode;
               trace' = trace @ [GeocodeCall geocodeReq]
           in case Geocode s trace geocodeReq of
                Inl err \<Rightarrow> (Inl (''geocoding failed: '' @ err), trace')
              | Inr results \<Rightarrow>
                  if length results = 0 then
                    (Inr \<lparr>Valid = False,
                          ValidationResponse.Message = ''Invalid PIN code: No location found'',
                          Suggestions = [], Details = None\<rparr>, trace')
                  else (Inr (resultsLoop pinCode city results zeroLocals), trace'))"

section \<open>calculateDistance\<close>

text \<open>
  \<^verbatim>\<open>math.Atan2(y, x)\<close> on finite arguments, as the Go documentation gives it: the angle of
  the point \<open>(x, y)\<close> in the interval from \<open>-\<pi>\<close> to \<open>\<pi>\<close>, with the quadrant taken from
  the signs of both arguments.
\<close>

definition Atan2 :: "real \<Rightarrow> real \<Rightarrow> real" where
  "Atan2 y x =
     (if 0 < x then arctan (y / x)
      else if x < 0 then (if 0 \<le> y then arctan (y / x) + pi else arctan (y / x) - pi)
      else if 0 < y then pi / 2
      else if y < 0 then - (pi / 2)
      else 0)"

text \<open>
  The two constants of \<^verbatim>\<open>calculateDistance\<close>. The source calls the second one \<^verbatim>\<open>pi\<close>; it
  is the decimal fraction written there, not the number \<open>\<pi>\<close>.
\<close>

definition earthRadius :: real where
  "earthRadius = 6371000"

definition pi_const :: real where
  "pi_const = 3.14159265359"

definition calculateDistance :: "real \<Rightarrow> real \<Rightarrow> real \<Rightarrow> real \<Rightarrow> real" where
  "calculateDistance lat1 lon1 lat2 lon2 =
     (let lat1Rad = lat1 * (pi_const / 180);
          lat2Rad = lat2 * (pi_const / 180);
          deltaLat = (lat2 - lat1) * (pi_const / 180);
          deltaLon = (lon2 - lon1) * (pi_const / 180);
          sinDeltaLat = sin (deltaLat / 2);
          sinDeltaLon = sin (deltaLon / 2);
          a = sinDeltaLat * sinDeltaLat + cos lat1Rad * cos lat2Rad * sinDeltaLon * sinDeltaLon;
          c = 2 * Atan2 (sqrt a) (sqrt (1 - a))
      in earthRadius * c)"

section \<open>GetNearbyLandmarks\<close>

subsection \<open>Scoring (lines 261 to 307)\<close>

record scoredLandmark =
  landmark :: Landmark
  score :: real

text \<open>Lines 284 to 286: the popularity score of a rating, a review count and a distance.\<close>

definition popScore :: "real \<Rightarrow> int \<Rightarrow> real \<Rightarrow> real" where
  "popScore rating userRatingsTotal distance =
     (let reviewScore = rating * log 10 (real_of_int userRatingsTotal + 1);
          distancePenalty = 1.0 + (distance / 1000.0)
      in reviewScore / distancePenalty)"

text \<open>The distance of line 271, from the resolved location to a place.\<close>

definition distanceTo :: "LatLng \<Rightarrow> PlacesSearchResult \<Rightarrow> real" where
  "distanceTo location place =
     calculateDistance (Lat location) (Lng location)
       (Lat (AddressGeometry.Location (PlacesSearchResult.Geometry place)))
       (Lng (AddressGeometry.Location (PlacesSearchResult.Geometry place)))"

text \<open>
  The body of the loop of line 269 for one place: \<^verbatim>\<open>continue\<close> leaves the slice as it
  is, otherwise the scored landmark is appended. The local variable \<^verbatim>\<open>popScore\<close> is bound
  to the value of the function of that name above.
\<close>

definition scoreStep :: "LatLng \<Rightarrow> PlacesSearchResult \<Rightarrow> scoredLandmark list \<Rightarrow> scoredLandmark list" where
  "scoreStep location place scoredLandmarks =
     (let distance = distanceTo location place in
      if distance < 10 \<or> UserRatingsTotal place = 0 then scoredLandmarks
      else
        let popScore = popScore (PlacesSearchResult.Rating place) (UserRatingsTotal place) distance;
            landmark =
              \<lparr>Landmark.Name = PlacesSearchResult.Name place,
               Landmark.Address = Vicinity place,
               Distance = distance,
               Landmark.PlaceID = PlacesSearchResult.PlaceID place,
               Landmark.Types = PlacesSearchResult.Types place,
               Landmark.Location =
                 \<lparr>Lat = Lat (AddressGeometry.Location (PlacesSearchResult.Geometry place)),
                  Lng = Lng (AddressGeometry.Location (PlacesSearchResult.Geometry place))\<rparr>,
               Landmark.Rating = PlacesSearchResult.Rating place,
               UserRatings = UserRatingsTotal place,
               PopScore = popScore\<rparr>
        in scoredLandmarks @ [\<lparr>landmark = landmark, score = popScore\<rparr>])"

definition scoreLoop :: "LatLng \<Rightarrow> PlacesSearchResult list \<Rightarrow> scoredLandmark list" where
  "scoreLoop location places = fold (scoreStep location) places []"

subsection \<open>Sorting and selection (lines 309 to 323)\<close>

text \<open>
  \<^verbatim>\<open>sort.Slice\<close> orders a slice by a \<^verbatim>\<open>less\<close> function (here \<open>lt\<close>) and promises no
  order among elements that \<^verbatim>\<open>less\<close> does not separate. The model is insertion sort, which keeps such
  elements in their order of arrival; the theorems on the ranking use only that the
  result is a rearrangement of the input in which no element is \<^verbatim>\<open>less\<close> than one before
  it, and \<open>top_five_of_any_order\<close> below states them for every such rearrangement.
\<close>

fun insertBy :: "('a \<Rightarrow> 'a \<Rightarrow> bool) \<Rightarrow> 'a \<Rightarrow> 'a list \<Rightarrow> 'a list" where
  "insertBy lt x [] = [x]"
| "insertBy lt x (y # ys) = (if lt x y then x # y # ys else y # insertBy lt x ys)"

definition sort_Slice :: "('a \<Rightarrow> 'a \<Rightarrow> bool) \<Rightarrow> 'a list \<Rightarrow> 'a list" where
  "sort_Slice lt xs = fold (insertBy lt) xs []"

definition selectTop :: "scoredLandmark list \<Rightarrow> Landmark list" where
  "selectTop scoredLandmarks =
     (let maxLandmarks = (if length scoredLandmarks < 5 then length scoredLandmarks else 5)
      in map (\<lambda>i. landmark (scoredLandmarks ! i)) [0..<maxLandmarks])"

definition rankLandmarks :: "LatLng \<Rightarrow> PlacesSearchResult list \<Rightarrow> Landmark list" where
  "rankLandmarks location places =
     selectTop (sort_Slice (\<lambda>a b. score a > score b) (scoreLoop location places))"

subsection \<open>Messages\<close>

text \<open>The verb \<^verbatim>\<open>%d\<close> of \<^verbatim>\<open>fmt.Sprintf\<close> on a length: its decimal digits.\<close>

fun showNat :: "nat \<Rightarrow> string" where
  "showNat n =
     (if n < 10 then [''0123456789'' ! n]
      else showNat (n div 10) @ [''0123456789'' ! (n mod 10)])"

definition foundMessage :: "Landmark list \<Rightarrow> string \<Rightarrow> string" where
  "foundMessage landmarks locationAddress =
     (if length landmarks = 0
      then ''No landmarks found in the specified area. Try increasing the search radius.''
      else ''Found '' @ showNat (length landmarks) @ '' landmarks near '' @ locationAddress)"

text \<open>
  A response that names only \<^verbatim>\<open>Success\<close> and \<^verbatim>\<open>Message\<close>: the other fields keep Go's
  zero values.
\<close>

definition softFailure :: "string \<Rightarrow> LandmarksResponse" where
  "softFailure msg =
     \<lparr>Success = False, LandmarksResponse.Message = msg, Landmarks = [],
      LandmarksResponse.Location = \<lparr>Lat = 0, Lng = 0\<rparr>\<rparr>"

subsection \<open>Resolving the location (lines 179 to 242)\<close>

text \<open>
  The first part of \<^verbatim>\<open>GetNearbyLandmarks\<close> either returns from the function (\<open>Inl\<close> of the
  returned pair's value: a hard error or a soft failure) or goes on with \<^verbatim>\<open>location\<close> and
  \<^verbatim>\<open>locationAddress\<close> (\<open>Inr\<close>).
\<close>

definition resolveLocation ::
  "Client \<Rightarrow> call list \<Rightarrow> string \<Rightarrow> string \<Rightarrow> string
     \<Rightarrow> ((error + LandmarksResponse) + LatLng \<times> string) \<times> call list" where
  "resolveLocation s trace pinCode city address =
     (if address \<noteq> [] then
        let locationAddress = TrimSpace address;
            geocodeReq = \<lparr>Address = locationAddress, Components = []\<rparr>;
            trace' = trace @ [GeocodeCall geocodeReq]
        in case Geocode s trace geocodeReq of
             Inl err \<Rightarrow> (Inl (Inl (''geocoding address failed: '' @ err)), trace')
           | Inr geocodeResults \<Rightarrow>
               (case geocodeResults of
                  [] \<Rightarrow> (Inl (Inr (softFailure ''Could not find the specified address'')), trace')
                | first # _ \<Rightarrow>
                    (Inr (AddressGeometry.Location (GeocodingResult.Geometry first),
                          GeocodingResult.FormattedAddress first), trace'))
      else if pinCode \<noteq> [] \<and> city \<noteq> [] then
        case ValidatePinCodeWithCity s trace pinCode city of
          (Inl err, trace1) \<Rightarrow> (Inl (Inl err), trace1)
        | (Inr validation, trace1) \<Rightarrow>
            if \<not> Valid validation then
              (Inl (Inr (softFailure (ValidationResponse.Message validation))), trace1)
            else
              let geocodeReq = \<lparr>Address = pinCode @ '', '' @ city, Components = []\<rparr>;
                  trace' = trace1 @ [GeocodeCall geocodeReq]
              in case Geocode s trace1 geocodeReq of
                   Inl err \<Rightarrow> (Inl (Inl (''geocoding failed: '' @ err)), trace')
                 | Inr geocodeResults \<Rightarrow>
                     (case geocodeResults of
                        [] \<Rightarrow> (Inl (Inr (softFailure ''Could not find location coordinates'')), trace')
                      | first # _ \<Rightarrow>
                          (Inr (AddressGeometry.Location (GeocodingResult.Geometry first),
                                GeocodingResult.FormattedAddress first), trace'))
      else
        (Inl (Inr (softFailure ''Please provide either an address OR both pin code and city'')),
         trace))"

subsection \<open>Searching and ranking (lines 244 to 338)\<close>

text \<open>
  The conversion \<^verbatim>\<open>uint(radius)\<close> drops the fraction of a radius that is not negative. Go
  leaves the result open for a value that does not fit; the model gives 0 for a negative
  one. Only the search request carries the converted radius.
\<close>

definition uint :: "real \<Rightarrow> nat" where
  "uint r = nat \<lfloor>r\<rfloor>"

definition nearbyRequest :: "LatLng \<Rightarrow> real \<Rightarrow> NearbySearchRequest" where
  "nearbyRequest location radius0 =
     (let radius = (if radius0 = 0 then 1000 else radius0)
      in \<lparr>NearbySearchRequest.Location = location, Radius = uint radius,
          Type = ''point_of_interest''\<rparr>)"

definition searchAndRank ::
  "Client \<Rightarrow> call list \<Rightarrow> LatLng \<Rightarrow> string \<Rightarrow> real \<Rightarrow> (error + LandmarksResponse) \<times> call list" where
  "searchAndRank s trace location locationAddress radius =
     (let nearbyReq = nearbyRequest location radius;
          trace' = trace @ [NearbySearchCall nearbyReq]
      in case NearbySearch s trace nearbyReq of
           Inl err \<Rightarrow> (Inl (''nearby search failed: '' @ err), trace')
         | Inr nearbyResults \<Rightarrow>
             let landmarks = rankLandmarks location nearbyResults;
                 message = foundMessage landmarks locationAddress
             in (Inr \<lparr>Success = True, LandmarksResponse.Message = message,
                       Landmarks = landmarks,
                       LandmarksResponse.Location = \<lparr>Lat = Lat location, Lng = Lng location\<rparr>\<rparr>,
                 trace'))"

definition GetNearbyLandmarks ::
  "Client \<Rightarrow> call list \<Rightarrow> string \<Rightarrow> string \<Rightarrow> string \<Rightarrow> real
     \<Rightarrow> (error + LandmarksResponse) \<times> call list" where
  "GetNearbyLandmarks s trace pinCode city address radius =
     (case resolveLocation s trace pinCode city address of
        (Inl returned, trace1) \<Rightarrow> (returned, trace1)
      | (Inr (location, locationAddress), trace1) \<Rightarrow>
          searchAndRank s trace1 location locationAddress radius)"

section \<open>Notions used to state the properties\<close>

subsection \<open>Extraction from address components\<close>

text \<open>
  The type tags of the first case of the \<^verbatim>\<open>switch\<close>, and the long names of the components
  of a result, once for every type tag of the component that satisfies \<open>P\<close>, in the
  order in which the two loops of lines 125 and 126 meet them.
\<close>

definition isCityTag :: "string \<Rightarrow> bool" where
  "isCityTag typ = (typ = ''locality'' \<or> typ = ''administrative_area_level_2'')"

definition taggedNames :: "(string \<Rightarrow> bool) \<Rightarrow> AddressComponent list \<Rightarrow> string list" where
  "taggedNames P components =
     concat (map (\<lambda>component. map (\<lambda>typ. LongName component)
                                 (filter P (AddressComponent.Types component))) components)"

text \<open>The first name that is not empty, and the last name or else a default.\<close>

fun firstNonEmpty :: "string list \<Rightarrow> string" where
  "firstNonEmpty [] = []"
| "firstNonEmpty (n # ns) = (if n \<noteq> [] then n else firstNonEmpty ns)"

definition lastOr :: "string \<Rightarrow> string list \<Rightarrow> string" where
  "lastOr d ns = (if ns = [] then d else last ns)"

text \<open>
  First-match-wins as the specification words it: the long name of the first component
  that carries one of the given type tags, and the empty string when there is none.
\<close>

definition firstMatchWins :: "string list \<Rightarrow> AddressComponent list \<Rightarrow> string" where
  "firstMatchWins tags components =
     (case filter (\<lambda>component. list_ex (\<lambda>typ. typ \<in> set tags) (AddressComponent.Types component))
             components of
        [] \<Rightarrow> []
      | component # _ \<Rightarrow> LongName component)"

text \<open>The match test of line 141, and the values of the variables after each result.\<close>

definition cityMatches :: "string \<Rightarrow> string \<Rightarrow> bool" where
  "cityMatches found city = (Contains found city \<or> Contains city found)"

fun localsAfterEach :: "GeocodingResult list \<Rightarrow> locals \<Rightarrow> locals list" where
  "localsAfterEach [] v = []"
| "localsAfterEach (result # rest) v =
     scanResult result v # localsAfterEach rest (scanResult result v)"

subsection \<open>Candidates that pass the filter of line 277\<close>

definition survives :: "LatLng \<Rightarrow> PlacesSearchResult \<Rightarrow> bool" where
  "survives location place = (\<not> (distanceTo location place < 10 \<or> UserRatingsTotal place = 0))"

definition survivors :: "LatLng \<Rightarrow> PlacesSearchResult list \<Rightarrow> PlacesSearchResult list" where
  "survivors location places = filter (survives location) places"

text \<open>The entry that line 303 appends for a place that is not skipped.\<close>

definition scoredOf :: "LatLng \<Rightarrow> PlacesSearchResult \<Rightarrow> scoredLandmark" where
  "scoredOf location place =
     \<lparr>landmark =
        \<lparr>Landmark.Name = PlacesSearchResult.Name place,
         Landmark.Address = Vicinity place,
         Distance = distanceTo location place,
         Landmark.PlaceID = PlacesSearchResult.PlaceID place,
         Landmark.Types = PlacesSearchResult.Types place,
         Landmark.Location = AddressGeometry.Location (PlacesSearchResult.Geometry place),
         Landmark.Rating = PlacesSearchResult.Rating place,
         UserRatings = UserRatingsTotal place,
         PopScore = popScore (PlacesSearchResult.Rating place) (UserRatingsTotal place)
                      (distanceTo location place)\<rparr>,
      score = popScore (PlacesSearchResult.Rating place) (UserRatingsTotal place)
                (distanceTo location place)\<rparr>"

section \<open>Concrete inputs\<close>

text \<open>
  Geocoding results and clients on which the theorems are instantiated. The clients give
  the same answer whatever was called before.
\<close>

definition resultKanpur :: GeocodingResult where
  "resultKanpur =
     \<lparr>AddressComponents =
        [\<lparr>LongName = ''Kanpur'', AddressComponent.Types = [''locality'', ''political'']\<rparr>,
         \<lparr>LongName = ''Kanpur Nagar'',
          AddressComponent.Types = [''administrative_area_level_2'', ''political'']\<rparr>,
         \<lparr>LongName = ''Uttar Pradesh'',
          AddressComponent.Types = [''administrative_area_level_1'', ''political'']\<rparr>,
         \<lparr>LongName = ''India'', AddressComponent.Types = [''country'', ''political'']\<rparr>],
      GeocodingResult.FormattedAddress = ''Kanpur, Uttar Pradesh 208001, India'',
      GeocodingResult.Geometry = \<lparr>AddressGeometry.Location = \<lparr>Lat = 26.46, Lng = 80.33\<rparr>\<rparr>\<rparr>"

definition resultDelhi :: GeocodingResult where
  "resultDelhi =
     \<lparr>AddressComponents =
        [\<lparr>LongName = ''Delhi'', AddressComponent.Types = [''locality'', ''political'']\<rparr>,
         \<lparr>LongName = ''India'', AddressComponent.Types = [''country'', ''political'']\<rparr>],
      GeocodingResult.FormattedAddress = ''Delhi, India'',
      GeocodingResult.Geometry = \<lparr>AddressGeometry.Location = \<lparr>Lat = 28.61, Lng = 77.21\<rparr>\<rparr>\<rparr>"

definition resultTwoStates :: GeocodingResult where
  "resultTwoStates =
     \<lparr>AddressComponents =
        [\<lparr>LongName = ''Kanpur'', AddressComponent.Types = [''locality'']\<rparr>,
         \<lparr>LongName = ''Uttar Pradesh'',
          AddressComponent.Types = [''administrative_area_level_1'']\<rparr>,
         \<lparr>LongName = ''Bihar'', AddressComponent.Types = [''administrative_area_level_1'']\<rparr>,
         \<lparr>LongName = ''India'', AddressComponent.Types = [''country'']\<rparr>,
         \<lparr>LongName = ''Nepal'', AddressComponent.Types = [''country'']\<rparr>],
      GeocodingResult.FormattedAddress = ''Kanpur 208001'',
      GeocodingResult.Geometry = \<lparr>AddressGeometry.Location = \<lparr>Lat = 26.46, Lng = 80.33\<rparr>\<rparr>\<rparr>"

definition resultStateOnly :: GeocodingResult where
  "resultStateOnly =
     \<lparr>AddressComponents =
        [\<lparr>LongName = ''208001'', AddressComponent.Types = [''postal_code'']\<rparr>,
         \<lparr>LongName = ''Uttar Pradesh'',
          AddressComponent.Types = [''administrative_area_level_1'', ''political'']\<rparr>,
         \<lparr>LongName = ''India'', AddressComponent.Types = [''country'', ''political'']\<rparr>],
      GeocodingResult.FormattedAddress = ''Uttar Pradesh 208001, India'',
      GeocodingResult.Geometry = \<lparr>AddressGeometry.Location = \<lparr>Lat = 26.46, Lng = 80.33\<rparr>\<rparr>\<rparr>"

definition resultEquator :: GeocodingResult where
  "resultEquator =
     \<lparr>AddressComponents = [],
      GeocodingResult.FormattedAddress = ''Equator Road'',
      GeocodingResult.Geometry = \<lparr>AddressGeometry.Location = \<lparr>Lat = 0, Lng = 0\<rparr>\<rparr>\<rparr>"

definition placeAt :: "string \<Rightarrow> real \<Rightarrow> real \<Rightarrow> real \<Rightarrow> int \<Rightarrow> PlacesSearchResult" where
  "placeAt name lat lng rating reviews =
     \<lparr>PlacesSearchResult.Name = name, Vicinity = ''Equator Road'',
      PlacesSearchResult.PlaceID = name, PlacesSearchResult.Types = [''point_of_interest''],
      PlacesSearchResult.Rating = rating, UserRatingsTotal = reviews,
      PlacesSearchResult.Geometry = \<lparr>AddressGeometry.Location = \<lparr>Lat = lat, Lng = lng\<rparr>\<rparr>\<rparr>"

definition placesEquator :: "PlacesSearchResult list" where
  "placesEquator =
     [placeAt ''museum'' 0 120 4 99,
      placeAt ''doorstep'' 0 0 5 10,
      placeAt ''unreviewed'' 0 120 0 0,
      placeAt ''temple'' 0 120 4 99]"

definition placesSkipped :: "PlacesSearchResult list" where
  "placesSkipped = [placeAt ''doorstep'' 0 0 5 10, placeAt ''unreviewed'' 0 120 0 0]"

definition clientOf :: "GeocodingResult list \<Rightarrow> PlacesSearchResult list \<Rightarrow> Client" where
  "clientOf results places = \<lparr>Geocode = (\<lambda>trace req. Inr results), NearbySearch = (\<lambda>trace req. Inr places)\<rparr>"

definition clientDown :: Client where
  "clientDown = \<lparr>Geocode = (\<lambda>trace req. Inl ''context deadline exceeded''),
                 NearbySearch = (\<lambda>trace req. Inl ''context deadline exceeded'')\<rparr>"

section \<open>Properties of the library functions\<close>

text \<open>\<^const>\<open>Contains\<close> holds exactly when the second string is a contiguous part of the first.\<close>

lemma hasPrefix_iff: "hasPrefix s p \<longleftrightarrow> (\<exists>ss. s = p @ ss)"
  by (induction s p rule: hasPrefix.induct) auto

lemma Contains_iff: "Contains s substr \<longleftrightarrow> (\<exists>ps ss. s = ps @ substr @ ss)"
proof (induction s)
  case Nil
  then show ?case by (simp add: hasPrefix_iff)
next
  case (Cons x xs)
  show ?case
  proof
    assume "Contains (x # xs) substr"
    then consider "hasPrefix (x # xs) substr" | "Contains xs substr" by auto
    then show "\<exists>ps ss. x # xs = ps @ substr @ ss"
    proof cases
      case 1
      then obtain ss where "x # xs = substr @ ss" by (auto simp: hasPrefix_iff)
      then have "x # xs = [] @ substr @ ss" by simp
      then show ?thesis by blast
    next
      case 2
      then obtain ps ss where "xs = ps @ substr @ ss" using Cons.IH by blast
      then have "x # xs = (x # ps) @ substr @ ss" by simp
      then show ?thesis by blast
    qed
  next
    assume "\<exists>ps ss. x # xs = ps @ substr @ ss"
    then obtain ps ss where e: "x # xs = ps @ substr @ ss" by blast
    show "Contains (x # xs) substr"
    proof (cases ps)
      case Nil
      then have "hasPrefix (x # xs) substr" using e by (auto simp: hasPrefix_iff)
      then show ?thesis by simp
    next
      case (Cons p ps')
      then have "xs = ps' @ substr @ ss" using e by simp
      then have "Contains xs substr" using Cons.IH by blast
      then show ?thesis by simp
    qed
  qed
qed

lemma Contains_empty: "Contains s []"
  by (cases s) simp_all

text \<open>The sort rearranges its input and puts no higher score after a lower one.\<close>

lemma mset_insertBy: "mset (insertBy lt x ys) = add_mset x (mset ys)"
  by (induction ys) simp_all

lemma mset_fold_insertBy: "mset (fold (insertBy lt) xs acc) = mset xs + mset acc"
  by (induction xs arbitrary: acc) (simp_all add: mset_insertBy)

lemma mset_sort_Slice: "mset (sort_Slice lt xs) = mset xs"
  by (simp add: sort_Slice_def mset_fold_insertBy)

lemma set_sort_Slice: "set (sort_Slice lt xs) = set xs"
  using mset_sort_Slice[of lt xs] by (rule mset_eq_setD)

lemma length_sort_Slice: "length (sort_Slice lt xs) = length xs"
  using mset_sort_Slice[of lt xs] by (rule mset_eq_length)

lemma set_insertBy: "set (insertBy lt x ys) = insert x (set ys)"
  using mset_insertBy[of lt x ys] by (metis set_mset_add_mset_insert set_mset_mset)

lemma sorted_insertBy:
  fixes f :: "'a \<Rightarrow> real"
  assumes "sorted_wrt (\<lambda>a b. f b \<le> f a) ys"
  shows "sorted_wrt (\<lambda>a b. f b \<le> f a) (insertBy (\<lambda>a b. f a > f b) x ys)"
  using assms by (induction ys) (auto simp: set_insertBy)

lemma sorted_fold_insertBy:
  fixes f :: "'a \<Rightarrow> real"
  assumes "sorted_wrt (\<lambda>a b. f b \<le> f a) acc"
  shows "sorted_wrt (\<lambda>a b. f b \<le> f a) (fold (insertBy (\<lambda>a b. f a > f b)) xs acc)"
  using assms by (induction xs arbitrary: acc) (simp_all add: sorted_insertBy)

lemma sorted_sort_Slice:
  fixes f :: "'a \<Rightarrow> real"
  shows "sorted_wrt (\<lambda>a b. f b \<le> f a) (sort_Slice (\<lambda>a b. f a > f b) xs)"
  by (simp add: sort_Slice_def sorted_fold_insertBy)

lemma Atan2_nonneg: "0 \<le> y \<Longrightarrow> 0 \<le> Atan2 y x"
proof -
  assume y: "0 \<le> y"
  have lb: "- (pi / 2) < arctan (y / x)" by (rule arctan_lbound)
  show ?thesis
  proof (cases "0 < x")
    case True
    then have "0 \<le> y / x" using y by simp
    then have "0 \<le> arctan (y / x)" by simp
    then show ?thesis using True by (simp add: Atan2_def)
  next
    case False
    have "0 \<le> arctan (y / x) + pi" using lb pi_gt_zero by linarith
    moreover have "0 \<le> pi / 2" using pi_gt_zero by simp
    ultimately show ?thesis using False y by (simp add: Atan2_def)
  qed
qed

lemma cos_nonpos:
  fixes x :: real
  assumes "pi / 2 \<le> x" and "x \<le> 3 * pi / 2"
  shows "cos x \<le> 0"
proof -
  have "0 \<le> cos (x - pi)" using assms by (intro cos_ge_zero) simp_all
  moreover have "cos (x - pi) = - cos x" by (simp add: cos_diff)
  ultimately show ?thesis by simp
qed

lemma Atan2_quarter:
  assumes "1 / 2 \<le> a" and "a \<le> 1"
  shows "pi / 4 \<le> Atan2 (sqrt a) (sqrt (1 - a))"
proof (cases "a = 1")
  case True
  then show ?thesis using pi_gt_zero by (simp add: Atan2_def)
next
  case False
  with assms have pos: "0 < sqrt (1 - a)" by simp
  have "sqrt (1 - a) \<le> sqrt a" using assms by simp
  then have "1 \<le> sqrt a / sqrt (1 - a)" using pos by (simp add: le_divide_eq)
  then have "arctan 1 \<le> arctan (sqrt a / sqrt (1 - a))" by (simp only: arctan_le_iff)
  then show ?thesis using pos by (simp add: Atan2_def arctan_one)
qed

section \<open>The distance\<close>

text \<open>
  The quantity \<^verbatim>\<open>a\<close> of \<^verbatim>\<open>calculateDistance\<close> lies between 0 and 1 for all arguments, so
  both square roots are taken of numbers that are not negative.
\<close>

lemma haversine_bounds:
  fixes lat1 lat2 dLon k :: real
  defines "a \<equiv> sin ((lat2 - lat1) * k / 2) * sin ((lat2 - lat1) * k / 2)
                 + cos (lat1 * k) * cos (lat2 * k) * sin (dLon / 2) * sin (dLon / 2)"
  shows "0 \<le> a \<and> a \<le> 1"
proof -
  define u where "u = lat1 * k"
  define v where "v = lat2 * k"
  define S where "S = sin (dLon / 2) * sin (dLon / 2)"
  define p where "p = cos (v - u)"
  define q where "q = cos (u + v)"
  have S: "0 \<le> S" "S \<le> 1"
  proof -
    show "0 \<le> S" by (simp add: S_def)
    have "S = (sin (dLon / 2))\<^sup>2" by (simp add: S_def power2_eq_square)
    also have "\<dots> \<le> 1" using abs_sin_le_one[of "dLon / 2"] by (simp add: abs_square_le_1)
    finally show "S \<le> 1" .
  qed
  have p: "- 1 \<le> p" "p \<le> 1" by (simp_all add: p_def)
  have q: "- 1 \<le> q" "q \<le> 1" by (simp_all add: q_def)
  have half: "(lat2 - lat1) * k / 2 = (v - u) / 2"
    by (simp add: u_def v_def left_diff_distrib)
  have h1: "sin ((v - u) / 2) * sin ((v - u) / 2) = (1 - p) / 2"
  proof -
    have "v - u = 2 * ((v - u) / 2)" by (simp add: field_simps)
    then have "p = cos (2 * ((v - u) / 2))" unfolding p_def by (rule arg_cong)
    also have "\<dots> = 1 - 2 * (sin ((v - u) / 2))\<^sup>2" by (rule cos_double_sin)
    finally show ?thesis by (simp add: power2_eq_square)
  qed
  have h2: "cos u * cos v = (p + q) / 2"
    using cos_times_cos[of u v] cos_minus[of "u - v"] by (simp add: p_def q_def)
  have "a = sin ((v - u) / 2) * sin ((v - u) / 2) + (cos u * cos v) * S"
    unfolding a_def half by (simp add: u_def v_def S_def mult.assoc)
  also have "\<dots> = (1 - p) / 2 + (p + q) / 2 * S"
    by (simp only: h1 h2)
  also have "\<dots> = (1 - (1 - S) * p + S * q) / 2"
    by (simp add: field_simps)
  finally have e: "a = (1 - (1 - S) * p + S * q) / 2" .
  have b1: "(1 - S) * p \<le> 1 - S" using S p by (simp add: mult_left_le)
  have b2: "- (1 - S) \<le> (1 - S) * p"
    using mult_left_mono[of "- 1" p "1 - S"] S p by simp
  have b3: "S * q \<le> S" using S q by (simp add: mult_left_le)
  have b4: "- S \<le> S * q"
    using mult_left_mono[of "- 1" q S] S q by simp
  show ?thesis unfolding e using b1 b2 b3 b4 by simp
qed

lemma calculateDistance_sym: "calculateDistance lat1 lon1 lat2 lon2 = calculateDistance lat2 lon2 lat1 lon1"
proof -
  have neg: "(x - y) * k / 2 = - ((y - x) * k / 2)" for x y k :: real
    by (simp add: field_simps)
  have s1: "sin ((lat1 - lat2) * (pi_const / 180) / 2) = - sin ((lat2 - lat1) * (pi_const / 180) / 2)"
    by (simp only: neg[of lat1 lat2] sin_minus)
  have s2: "sin ((lon1 - lon2) * (pi_const / 180) / 2) = - sin ((lon2 - lon1) * (pi_const / 180) / 2)"
    by (simp only: neg[of lon1 lon2] sin_minus)
  show ?thesis
    unfolding calculateDistance_def Let_def s1 s2 by (simp add: mult.commute)
qed

lemma calculateDistance_self: "calculateDistance lat1 lon1 lat1 lon1 = 0"
  by (simp add: calculateDistance_def Atan2_def)

lemma calculateDistance_nonneg: "0 \<le> calculateDistance lat1 lon1 lat2 lon2"
proof -
  let ?a = "sin ((lat2 - lat1) * (pi_const / 180) / 2) * sin ((lat2 - lat1) * (pi_const / 180) / 2)
      + cos (lat1 * (pi_const / 180)) * cos (lat2 * (pi_const / 180))
        * sin ((lon2 - lon1) * (pi_const / 180) / 2) * sin ((lon2 - lon1) * (pi_const / 180) / 2)"
  have "0 \<le> ?a"
    using haversine_bounds[of lat2 lat1 "pi_const / 180" "(lon2 - lon1) * (pi_const / 180)"]
    by (rule conjunct1)
  then have "0 \<le> sqrt ?a" by (simp only: real_sqrt_ge_zero)
  then have "0 \<le> Atan2 (sqrt ?a) (sqrt (1 - ?a))" by (rule Atan2_nonneg)
  then have "0 \<le> earthRadius * (2 * Atan2 (sqrt ?a) (sqrt (1 - ?a)))"
    unfolding earthRadius_def by (intro mult_nonneg_nonneg) simp_all
  then show ?thesis
    unfolding calculateDistance_def Let_def .
qed

text \<open>A third of the way round the equator is more than ten metres.\<close>

lemma far_apart: "\<not> calculateDistance 0 0 0 120 < 10"
proof -
  define a :: real where "a = sin (120 * (pi_const / 180) / 2) * sin (120 * (pi_const / 180) / 2)"
  define x :: real where "x = 120 * (pi_const / 180) / 2"
  have x: "pi / 2 \<le> 2 * x" "2 * x \<le> 3 * pi / 2"
    using pi_less_4 pi_ge_two by (simp_all add: x_def pi_const_def)
  have "cos (2 * x) \<le> 0" using x by (rule cos_nonpos)
  moreover have "cos (2 * x) = 1 - 2 * (sin x)\<^sup>2" by (rule cos_double_sin)
  ultimately have half: "1 / 2 \<le> a" by (simp add: a_def x_def power2_eq_square)
  have "a = (sin x)\<^sup>2" by (simp add: a_def x_def power2_eq_square)
  also have "\<dots> \<le> 1" using abs_sin_le_one[of x] by (simp add: abs_square_le_1)
  finally have one: "a \<le> 1" .
  have "pi / 4 \<le> Atan2 (sqrt a) (sqrt (1 - a))" using half one by (rule Atan2_quarter)
  then have "1 / 2 \<le> Atan2 (sqrt a) (sqrt (1 - a))" using pi_ge_two by simp
  then have "10 \<le> earthRadius * (2 * Atan2 (sqrt a) (sqrt (1 - a)))"
    by (simp add: earthRadius_def)
  moreover have "calculateDistance 0 0 0 120 = earthRadius * (2 * Atan2 (sqrt a) (sqrt (1 - a)))"
    by (simp add: calculateDistance_def a_def Let_def)
  ultimately show ?thesis by simp
qed

text \<open>
  Exact arithmetic: as a function of real numbers the distance is the same in both
  directions, is 0 from a point to itself and is never negative, because the quantity
  \<^verbatim>\<open>a\<close> stays between 0 and 1. The compiled function works in \<^verbatim>\<open>float64\<close> and has no
  guard that keeps \<^verbatim>\<open>a\<close> in that range: for antipodal points, such as (-88, -179) and
  (88, 1), \<^verbatim>\<open>a\<close> rounds to a value above 1, \<^verbatim>\<open>math.Sqrt(1-a)\<close> is NaN and so is the
  returned distance. The lemma says nothing about the compiled function at such points.
\<close>

lemma calculateDistance_metric_exact:
  "calculateDistance lat1 lon1 lat2 lon2 = calculateDistance lat2 lon2 lat1 lon1
   \<and> calculateDistance lat1 lon1 lat1 lon1 = 0
   \<and> 0 \<le> calculateDistance lat1 lon1 lat2 lon2"
  using calculateDistance_sym[of lat1 lon1 lat2 lon2] calculateDistance_self[of lat1 lon1]
    calculateDistance_nonneg[of lat1 lon1 lat2 lon2]
  by (intro conjI)

section \<open>The popularity score\<close>

lemma popScore_eq: "popScore r n d = r * log 10 (real_of_int n + 1) / (1 + d / 1000)"
  by (simp add: popScore_def)

lemma log_reviews_nonneg: "0 \<le> n \<Longrightarrow> 0 \<le> log 10 (real_of_int n + 1)"
  by (simp add: zero_le_log_cancel_iff)

lemma log_reviews_mono: "0 \<le> n \<Longrightarrow> n \<le> n' \<Longrightarrow> log 10 (real_of_int n + 1) \<le> log 10 (real_of_int n' + 1)"
  by (simp add: log_le_cancel_iff)

lemma log_reviews_pos: "0 < n \<Longrightarrow> 0 < log 10 (real_of_int n + 1)"
  by (simp add: zero_less_log_cancel_iff)

lemma log_reviews_strict:
  "0 \<le> n \<Longrightarrow> n < n' \<Longrightarrow> log 10 (real_of_int n + 1) < log 10 (real_of_int n' + 1)"
  by (simp add: log_less_cancel_iff)

text \<open>
  C4: with the other two arguments fixed, the popularity score does not decrease when the
  rating grows, does not decrease when the review count grows, and does not increase
  when the distance grows, for every rating, review count and distance that are not
  negative (no upper bound on the rating is needed). Each of the three is strict as soon
  as the factors held fixed are positive; at a rating of 0 or a review count of 0 the
  score is 0 throughout.
\<close>

theorem popScore_monotone:
  assumes "0 \<le> rating" and "0 \<le> reviews" and "0 \<le> distance"
  shows "(rating \<le> rating' \<longrightarrow>
            popScore rating reviews distance \<le> popScore rating' reviews distance)
       \<and> (reviews \<le> reviews' \<longrightarrow>
            popScore rating reviews distance \<le> popScore rating reviews' distance)
       \<and> (distance \<le> distance' \<longrightarrow>
            popScore rating reviews distance' \<le> popScore rating reviews distance)
       \<and> (rating < rating' \<and> 0 < reviews \<longrightarrow>
            popScore rating reviews distance < popScore rating' reviews distance)
       \<and> (reviews < reviews' \<and> 0 < rating \<longrightarrow>
            popScore rating reviews distance < popScore rating reviews' distance)
       \<and> (distance < distance' \<and> 0 < rating \<and> 0 < reviews \<longrightarrow>
            popScore rating reviews distance' < popScore rating reviews distance)"
proof -
  have L: "0 \<le> log 10 (real_of_int reviews + 1)" using assms(2) by (rule log_reviews_nonneg)
  have P: "0 < 1 + distance / 1000" using assms(3) by simp
  have N: "0 \<le> rating * log 10 (real_of_int reviews + 1)" using assms(1) L by simp
  have c1: "popScore rating reviews distance \<le> popScore rating' reviews distance"
    if "rating \<le> rating'"
  proof -
    have "rating * log 10 (real_of_int reviews + 1) \<le> rating' * log 10 (real_of_int reviews + 1)"
      using that L by (rule mult_right_mono)
    then show ?thesis unfolding popScore_eq using P by (simp add: divide_right_mono)
  qed
  have c2: "popScore rating reviews distance \<le> popScore rating reviews' distance"
    if "reviews \<le> reviews'"
  proof -
    have "log 10 (real_of_int reviews + 1) \<le> log 10 (real_of_int reviews' + 1)"
      using assms(2) that by (rule log_reviews_mono)
    then have "rating * log 10 (real_of_int reviews + 1) \<le> rating * log 10 (real_of_int reviews' + 1)"
      using assms(1) by (rule mult_left_mono)
    then show ?thesis unfolding popScore_eq using P by (simp add: divide_right_mono)
  qed
  have c3: "popScore rating reviews distance' \<le> popScore rating reviews distance"
    if "distance \<le> distance'"
  proof -
    have "1 + distance / 1000 \<le> 1 + distance' / 1000" using that by simp
    then show ?thesis unfolding popScore_eq using P N by (intro divide_left_mono) simp_all
  qed
  have c4: "popScore rating reviews distance < popScore rating' reviews distance"
    if "rating < rating' \<and> 0 < reviews"
  proof -
    have "0 < log 10 (real_of_int reviews + 1)" using that by (intro log_reviews_pos) simp
    then have "rating * log 10 (real_of_int reviews + 1) < rating' * log 10 (real_of_int reviews + 1)"
      using that by (simp add: mult_strict_right_mono)
    then show ?thesis unfolding popScore_eq using P by (simp add: divide_strict_right_mono)
  qed
  have c5: "popScore rating reviews distance < popScore rating reviews' distance"
    if "reviews < reviews' \<and> 0 < rating"
  proof -
    have "log 10 (real_of_int reviews + 1) < log 10 (real_of_int reviews' + 1)"
      using assms(2) that by (intro log_reviews_strict) simp_all
    then have "rating * log 10 (real_of_int reviews + 1) < rating * log 10 (real_of_int reviews' + 1)"
      using that by (simp add: mult_strict_left_mono)
    then show ?thesis unfolding popScore_eq using P by (simp add: divide_strict_right_mono)
  qed
  have c6: "popScore rating reviews distance' < popScore rating reviews distance"
    if "distance < distance' \<and> 0 < rating \<and> 0 < reviews"
  proof -
    have "0 < log 10 (real_of_int reviews + 1)" using that by (intro log_reviews_pos) simp
    then have pos: "0 < rating * log 10 (real_of_int reviews + 1)" using that by simp
    have "1 + distance / 1000 < 1 + distance' / 1000" using that by simp
    then show ?thesis unfolding popScore_eq using P pos by (intro divide_strict_left_mono) simp_all
  qed
  from c1 c2 c3 c4 c5 c6 show ?thesis by blast
qed

text \<open>A rating of 3 against 4, 9 reviews against 99, one kilometre against three.\<close>

theorem popScore_monotone_witness:
  "popScore 3 9 1000 \<le> popScore 4 9 1000
   \<and> popScore 3 9 1000 \<le> popScore 3 99 1000
   \<and> popScore 3 9 3000 \<le> popScore 3 9 1000
   \<and> popScore 3 9 1000 < popScore 4 9 1000
   \<and> popScore 3 9 1000 < popScore 3 99 1000
   \<and> popScore 3 9 3000 < popScore 3 9 1000"
  using popScore_monotone[of 3 9 1000 4 99 3000] by simp

section \<open>Validation\<close>

text \<open>The cleaning of line 89 and line 90 on the strings used below.\<close>

lemma clean_208001: "TrimSpace ''208001'' = ''208001''"
  by code_simp

lemma clean_Equator: "TrimSpace ''Equator Road'' = ''Equator Road''"
  by code_simp

lemma firstNonEmpty_append:
  "firstNonEmpty (ms @ ns) = (if firstNonEmpty ms \<noteq> [] then firstNonEmpty ms else firstNonEmpty ns)"
  by (induction ms) simp_all

lemma lastOr_Cons: "lastOr d (n # ns) = lastOr n ns"
  by (simp add: lastOr_def)

lemma lastOr_append: "lastOr d (ms @ ns) = lastOr (lastOr d ms) ns"
  by (simp add: lastOr_def)

lemma lastOr_Nil: "lastOr d [] = d"
  by (simp add: lastOr_def)

lemma fold_switchTyp_city:
  "foundCity (fold (switchTyp c) ts v) =
     (if foundCity v \<noteq> [] then foundCity v
      else firstNonEmpty (map ToLower (map (\<lambda>typ. LongName c) (filter isCityTag ts))))"
  by (induction ts arbitrary: v) (simp_all add: switchTyp_def isCityTag_def)

lemma fold_switchTyp_state:
  "foundState (fold (switchTyp c) ts v) =
     lastOr (foundState v) (map (\<lambda>typ. LongName c) (filter (\<lambda>typ. typ = ''administrative_area_level_1'') ts))"
  by (induction ts arbitrary: v) (simp_all add: switchTyp_def lastOr_Cons lastOr_Nil)

lemma fold_switchTyp_country:
  "foundCountry (fold (switchTyp c) ts v) =
     lastOr (foundCountry v) (map (\<lambda>typ. LongName c) (filter (\<lambda>typ. typ = ''country'') ts))"
  by (induction ts arbitrary: v) (simp_all add: switchTyp_def lastOr_Cons lastOr_Nil)

lemma fold_components_city:
  "foundCity (fold (\<lambda>c. fold (switchTyp c) (AddressComponent.Types c)) cs v) =
     (if foundCity v \<noteq> [] then foundCity v
      else firstNonEmpty (map ToLower (taggedNames isCityTag cs)))"
  by (induction cs arbitrary: v)
     (simp_all add: taggedNames_def fold_switchTyp_city firstNonEmpty_append)

lemma fold_components_state:
  "foundState (fold (\<lambda>c. fold (switchTyp c) (AddressComponent.Types c)) cs v) =
     lastOr (foundState v) (taggedNames (\<lambda>typ. typ = ''administrative_area_level_1'') cs)"
  by (induction cs arbitrary: v)
     (simp_all add: taggedNames_def fold_switchTyp_state lastOr_append lastOr_Nil)

lemma fold_components_country:
  "foundCountry (fold (\<lambda>c. fold (switchTyp c) (AddressComponent.Types c)) cs v) =
     lastOr (foundCountry v) (taggedNames (\<lambda>typ. typ = ''country'') cs)"
  by (induction cs arbitrary: v)
     (simp_all add: taggedNames_def fold_switchTyp_country lastOr_append lastOr_Nil)

lemma scanResult_city:
  "foundCity (scanResult result v) =
     (if foundCity v \<noteq> [] then foundCity v
      else firstNonEmpty (map ToLower (taggedNames isCityTag (AddressComponents result))))"
  by (simp add: scanResult_def fold_components_city)

lemma taggedNames_none:
  assumes "\<forall>component \<in> set cs. \<forall>typ \<in> set (AddressComponent.Types component). \<not> P typ"
  shows "taggedNames P cs = []"
  using assms by (induction cs) (simp_all add: taggedNames_def filter_empty_conv)

lemma resultsLoop_no_match:
  assumes "\<forall>v' \<in> set (localsAfterEach results v). \<not> cityMatches (foundCity v') city"
  shows "resultsLoop pinCode city results v =
           \<lparr>Valid = False,
            ValidationResponse.Message = ''PIN code '' @ pinCode @ '' does not belong to '' @ city,
            Suggestions = (if foundCity (last (v # localsAfterEach results v)) \<noteq> []
                           then [foundCity (last (v # localsAfterEach results v))] else []),
            Details = Some (detailsOf pinCode (last (v # localsAfterEach results v)))\<rparr>"
  using assms by (induction results arbitrary: v) (simp_all add: cityMatches_def Let_def)

lemma resultsLoop_first_match:
  assumes "cityMatches (foundCity (scanResult result v)) city"
  shows "resultsLoop pinCode city (result # rest) v =
           \<lparr>Valid = True,
            ValidationResponse.Message = ''PIN code and city match successfully'',
            Suggestions = [],
            Details = Some (detailsOf pinCode (scanResult result v))\<rparr>"
  using assms by (simp add: cityMatches_def Let_def)

lemma ValidatePinCodeWithCity_results:
  assumes "TrimSpace pinCode0 \<noteq> []" and "ToLower (TrimSpace city0) \<noteq> []"
    and "Geocode s trace (pinCodeRequest (TrimSpace pinCode0)) = Inr results"
    and "results \<noteq> []"
  shows "ValidatePinCodeWithCity s trace pinCode0 city0 =
           (Inr (resultsLoop (TrimSpace pinCode0) (ToLower (TrimSpace city0)) results zeroLocals),
            trace @ [GeocodeCall (pinCodeRequest (TrimSpace pinCode0))])"
  using assms by (simp add: ValidatePinCodeWithCity_def Let_def)

lemma no_match_city_nonempty:
  assumes "results \<noteq> []"
    and "\<forall>v \<in> set (localsAfterEach results v0). \<not> cityMatches (foundCity v) city"
  shows "foundCity (last (localsAfterEach results v0)) \<noteq> []"
proof
  assume e: "foundCity (last (localsAfterEach results v0)) = []"
  have "localsAfterEach results v0 \<noteq> []" using assms(1) by (cases results) simp_all
  then have "last (localsAfterEach results v0) \<in> set (localsAfterEach results v0)" by simp
  with assms(2) have "\<not> cityMatches (foundCity (last (localsAfterEach results v0))) city" by blast
  then show False by (simp add: e cityMatches_def Contains_empty)
qed

text \<open>
  C6 as the specification states it, first-match-wins per result, fails: a result that
  carries two components tagged \<^verbatim>\<open>administrative_area_level_1\<close> and two tagged
  \<^verbatim>\<open>country\<close> is reported with the long names of the second ones, and a result for
  Delhi that follows a result for Kanpur leaves the city at Kanpur.
\<close>

theorem first_match_counterexample:
  "fst (ValidatePinCodeWithCity (clientOf [resultTwoStates] []) [] ''208001'' ''Kanpur'') =
     Inr \<lparr>Valid = True,
          ValidationResponse.Message = ''PIN code and city match successfully'',
          Suggestions = [],
          Details = Some \<lparr>PinCode = ''208001'', City = ''kanpur'', State = ''Bihar'',
                          Country = ''Nepal'', Details.FormattedAddress = ''Kanpur 208001''\<rparr>\<rparr>
   \<and> firstMatchWins [''administrative_area_level_1''] (AddressComponents resultTwoStates)
       = ''Uttar Pradesh''
   \<and> firstMatchWins [''country''] (AddressComponents resultTwoStates) = ''India''
   \<and> foundCity (scanResult resultDelhi (scanResult resultKanpur zeroLocals)) = ''kanpur''
   \<and> firstMatchWins [''locality'', ''administrative_area_level_2'']
         (AddressComponents resultDelhi) = ''Delhi''"
  by code_simp

text \<open>
  C6, as amended: within a result the type tags of the components are met in order. A city
  that was already extracted, from this result or from an earlier one, is kept; otherwise
  the city is the lower-cased long name of the first component tagged \<^verbatim>\<open>locality\<close> or
  \<^verbatim>\<open>administrative_area_level_2\<close> whose long name is not empty. The state and the country
  are the long names of the last component tagged \<^verbatim>\<open>administrative_area_level_1\<close> and
  \<^verbatim>\<open>country\<close> met so far: a later component with the same tag replaces an earlier one.
\<close>

theorem scanResult_extracts:
  "foundCity (scanResult result v) =
     (if foundCity v \<noteq> [] then foundCity v
      else firstNonEmpty (map ToLower (taggedNames isCityTag (AddressComponents result))))
   \<and> foundState (scanResult result v) =
       lastOr (foundState v)
         (taggedNames (\<lambda>typ. typ = ''administrative_area_level_1'') (AddressComponents result))
   \<and> foundCountry (scanResult result v) =
       lastOr (foundCountry v) (taggedNames (\<lambda>typ. typ = ''country'') (AddressComponents result))"
  by (simp add: scanResult_def fold_components_city fold_components_state fold_components_country)

theorem scanResult_extracts_witness:
  "foundCity (scanResult resultTwoStates zeroLocals) = ''kanpur''
   \<and> foundState (scanResult resultTwoStates zeroLocals) = ''Bihar''
   \<and> foundCountry (scanResult resultTwoStates zeroLocals) = ''Nepal''"
proof -
  have n: "map ToLower (taggedNames isCityTag (AddressComponents resultTwoStates)) = [''kanpur'']"
    "taggedNames (\<lambda>typ. typ = ''administrative_area_level_1'') (AddressComponents resultTwoStates)
       = [''Uttar Pradesh'', ''Bihar'']"
    "taggedNames (\<lambda>typ. typ = ''country'') (AddressComponents resultTwoStates) = [''India'', ''Nepal'']"
    by code_simp+
  show ?thesis
    using scanResult_extracts[of resultTwoStates zeroLocals]
    by (simp add: n zeroLocals_def lastOr_def)
qed

text \<open>
  C7 as the specification states it fails twice. The city suggested is not the one seen
  last: for a Kanpur result followed by a Delhi result and the claimed city Mumbai, the
  suggestion is Kanpur. And a validation in which no city was ever extracted is not
  invalid with an empty suggestion list: it is valid.
\<close>

theorem last_seen_counterexample:
  "fst (ValidatePinCodeWithCity (clientOf [resultKanpur, resultDelhi] []) [] ''208001'' ''Mumbai'') =
     Inr \<lparr>Valid = False,
          ValidationResponse.Message = ''PIN code 208001 does not belong to mumbai'',
          Suggestions = [''kanpur''],
          Details = Some \<lparr>PinCode = ''208001'', City = ''kanpur'', State = ''Uttar Pradesh'',
                          Country = ''India'', Details.FormattedAddress = ''Delhi, India''\<rparr>\<rparr>
   \<and> ToLower (firstMatchWins [''locality'', ''administrative_area_level_2'']
                 (AddressComponents (last [resultKanpur, resultDelhi]))) = ''delhi''
   \<and> fst (ValidatePinCodeWithCity (clientOf [resultStateOnly] []) [] ''208001'' ''Mumbai'') =
       Inr \<lparr>Valid = True,
            ValidationResponse.Message = ''PIN code and city match successfully'',
            Suggestions = [],
            Details = Some \<lparr>PinCode = ''208001'', City = [], State = ''Uttar Pradesh'',
                            Country = ''India'',
                            Details.FormattedAddress = ''Uttar Pradesh 208001, India''\<rparr>\<rparr>"
  by code_simp

text \<open>
  After the first result the city never changes, so no result matches exactly when the
  first one does not.
\<close>

lemma scanResult_city_kept:
  "foundCity v \<noteq> [] \<Longrightarrow> foundCity (scanResult result v) = foundCity v"
  by (simp add: scanResult_city)

lemma localsAfterEach_city_kept:
  "foundCity v \<noteq> [] \<Longrightarrow> \<forall>v' \<in> set (localsAfterEach results v). foundCity v' = foundCity v"
proof (induction results arbitrary: v)
  case Nil
  then show ?case by simp
next
  case (Cons result results)
  have k: "foundCity (scanResult result v) = foundCity v"
    using Cons.prems by (rule scanResult_city_kept)
  then have "foundCity (scanResult result v) \<noteq> []" using Cons.prems by simp
  from Cons.IH[OF this] k show ?case by simp
qed

lemma first_city: 
  "foundCity (scanResult result zeroLocals) =
     firstNonEmpty (map ToLower (taggedNames isCityTag (AddressComponents result)))"
  by (simp add: scanResult_city zeroLocals_def)

lemma localsAfterEach_first_city:
  assumes "foundCity (scanResult result zeroLocals) \<noteq> []"
  shows "\<forall>v \<in> set (localsAfterEach (result # rest) zeroLocals).
           foundCity v = foundCity (scanResult result zeroLocals)"
  using localsAfterEach_city_kept[OF assms, of rest] by simp

lemma no_match_iff_first:
  "(\<forall>v \<in> set (localsAfterEach (result # rest) zeroLocals). \<not> cityMatches (foundCity v) city)
   \<longleftrightarrow> \<not> cityMatches (foundCity (scanResult result zeroLocals)) city"
proof
  assume "\<forall>v \<in> set (localsAfterEach (result # rest) zeroLocals). \<not> cityMatches (foundCity v) city"
  then show "\<not> cityMatches (foundCity (scanResult result zeroLocals)) city" by simp
next
  assume n: "\<not> cityMatches (foundCity (scanResult result zeroLocals)) city"
  then have "foundCity (scanResult result zeroLocals) \<noteq> []"
    by (auto simp: cityMatches_def Contains_empty)
  from localsAfterEach_first_city[OF this, of rest] n
  show "\<forall>v \<in> set (localsAfterEach (result # rest) zeroLocals). \<not> cityMatches (foundCity v) city"
    by simp
qed

text \<open>
  C7, as amended: when geocoding returns results and the city extracted from the first
  result (the lower-cased long name of its first component tagged \<^verbatim>\<open>locality\<close> or
  \<^verbatim>\<open>administrative_area_level_2\<close> whose long name is not empty) does not match the claimed
  city, then whatever the later results hold the validation is invalid and suggests that
  first city, as a list of one element. The suggested city is never empty and the
  suggestion list is never empty here. (The geocoding call is made only for a pin code
  and a city that are not empty after cleaning.)
\<close>

theorem validate_mismatch_suggests_first_city:
  assumes "TrimSpace pinCode0 \<noteq> []" and "ToLower (TrimSpace city0) \<noteq> []"
    and "Geocode s trace (pinCodeRequest (TrimSpace pinCode0)) = Inr (result # rest)"
    and "\<not> cityMatches
             (firstNonEmpty (map ToLower (taggedNames isCityTag (AddressComponents result))))
             (ToLower (TrimSpace city0))"
  shows "\<exists>resp. fst (ValidatePinCodeWithCity s trace pinCode0 city0) = Inr resp
           \<and> \<not> Valid resp
           \<and> Suggestions resp =
               [firstNonEmpty (map ToLower (taggedNames isCityTag (AddressComponents result)))]
           \<and> firstNonEmpty (map ToLower (taggedNames isCityTag (AddressComponents result))) \<noteq> []"
proof -
  let ?c = "firstNonEmpty (map ToLower (taggedNames isCityTag (AddressComponents result)))"
  define ls where "ls = localsAfterEach (result # rest) zeroLocals"
  have c: "foundCity (scanResult result zeroLocals) = ?c" by (rule first_city)
  have ne: "?c \<noteq> []" using assms(4) by (auto simp: cityMatches_def Contains_empty)
  have nm: "\<forall>v \<in> set ls. \<not> cityMatches (foundCity v) (ToLower (TrimSpace city0))"
    unfolding ls_def no_match_iff_first c using assms(4) .
  have ne': "foundCity (scanResult result zeroLocals) \<noteq> []" unfolding c by (rule ne)
  have all: "\<forall>v \<in> set ls. foundCity v = ?c"
    using localsAfterEach_first_city[OF ne', of rest] unfolding ls_def c .
  have "ls \<noteq> []" by (simp add: ls_def)
  then have "last (zeroLocals # ls) \<in> set ls" by simp
  with all have l: "foundCity (last (zeroLocals # ls)) = ?c" by blast
  have loop: "resultsLoop (TrimSpace pinCode0) (ToLower (TrimSpace city0)) (result # rest) zeroLocals =
           \<lparr>Valid = False,
            ValidationResponse.Message =
              ''PIN code '' @ TrimSpace pinCode0 @ '' does not belong to '' @ ToLower (TrimSpace city0),
            Suggestions = (if foundCity (last (zeroLocals # ls)) \<noteq> []
                           then [foundCity (last (zeroLocals # ls))] else []),
            Details = Some (detailsOf (TrimSpace pinCode0) (last (zeroLocals # ls)))\<rparr>"
    unfolding ls_def by (rule resultsLoop_no_match) (use nm in \<open>simp only: ls_def\<close>)
  have r: "result # rest \<noteq> []" by simp
  show ?thesis
    unfolding ValidatePinCodeWithCity_results[OF assms(1,2,3) r] loop l
    using ne by simp
qed

text \<open>Pin code 208001 with results for Kanpur and for Delhi, and the claimed city Mumbai.\<close>

theorem validate_mismatch_first_city_witness:
  "\<exists>resp. fst (ValidatePinCodeWithCity (clientOf [resultKanpur, resultDelhi] []) []
                 ''208001'' ''Mumbai'') = Inr resp
     \<and> \<not> Valid resp \<and> Suggestions resp = [''kanpur'']"
proof -
  have h1: "TrimSpace ''208001'' \<noteq> []" by code_simp
  have h2: "ToLower (TrimSpace ''Mumbai'') \<noteq> []" by code_simp
  have h3: "Geocode (clientOf [resultKanpur, resultDelhi] []) []
              (pinCodeRequest (TrimSpace ''208001'')) = Inr (resultKanpur # [resultDelhi])"
    by (simp add: clientOf_def)
  have c: "firstNonEmpty (map ToLower (taggedNames isCityTag (AddressComponents resultKanpur)))
             = ''kanpur''"
    by code_simp
  have h4: "\<not> cityMatches
             (firstNonEmpty (map ToLower (taggedNames isCityTag (AddressComponents resultKanpur))))
             (ToLower (TrimSpace ''Mumbai''))"
    by code_simp
  from validate_mismatch_suggests_first_city[OF h1 h2 h3 h4] show ?thesis
    unfolding c by blast
qed

text \<open>
  C10: when the first geocoding result has no component tagged \<^verbatim>\<open>locality\<close> or
  \<^verbatim>\<open>administrative_area_level_2\<close>, the validation is valid for every claimed city, and the
  city of its details is the empty string. (Geocoding results exist only after the call,
  which is made only for a pin code and a city that are not empty after cleaning.)
\<close>

theorem validate_without_city_component:
  assumes "TrimSpace pinCode0 \<noteq> []" and "ToLower (TrimSpace city0) \<noteq> []"
    and "Geocode s trace (pinCodeRequest (TrimSpace pinCode0)) = Inr (result # rest)"
    and "\<forall>component \<in> set (AddressComponents result).
           ''locality'' \<notin> set (AddressComponent.Types component)
           \<and> ''administrative_area_level_2'' \<notin> set (AddressComponent.Types component)"
  shows "\<exists>resp d. fst (ValidatePinCodeWithCity s trace pinCode0 city0) = Inr resp
           \<and> Valid resp \<and> Details resp = Some d \<and> City d = []"
proof -
  have "taggedNames isCityTag (AddressComponents result) = []"
    using assms(4) by (intro taggedNames_none) (auto simp: isCityTag_def)
  then have c: "foundCity (scanResult result zeroLocals) = []"
    by (simp add: scanResult_city zeroLocals_def)
  then have m: "cityMatches (foundCity (scanResult result zeroLocals)) (ToLower (TrimSpace city0))"
    by (simp add: cityMatches_def Contains_empty)
  have ne: "result # rest \<noteq> []" by simp
  show ?thesis
    unfolding ValidatePinCodeWithCity_results[OF assms(1,2,3) ne] resultsLoop_first_match[OF m]
    by (simp add: detailsOf_def c)
qed

text \<open>A result with a postal code, a state and a country only, and the claimed city Delhi.\<close>

theorem validate_without_city_witness:
  "\<exists>resp d. fst (ValidatePinCodeWithCity (clientOf [resultStateOnly] []) [] ''208001'' ''Delhi'')
               = Inr resp
     \<and> Valid resp \<and> Details resp = Some d \<and> City d = [] \<and> State d = ''Uttar Pradesh''"
proof -
  have h1: "TrimSpace ''208001'' \<noteq> []" by code_simp
  have h2: "ToLower (TrimSpace ''Delhi'') \<noteq> []" by code_simp
  have h3: "Geocode (clientOf [resultStateOnly] []) [] (pinCodeRequest (TrimSpace ''208001''))
              = Inr (resultStateOnly # [])"
    by (simp add: clientOf_def)
  have h4: "\<forall>component \<in> set (AddressComponents resultStateOnly).
           ''locality'' \<notin> set (AddressComponent.Types component)
           \<and> ''administrative_area_level_2'' \<notin> set (AddressComponent.Types component)"
    by (simp add: resultStateOnly_def)
  have e: "fst (ValidatePinCodeWithCity (clientOf [resultStateOnly] []) [] ''208001'' ''Delhi'') =
     Inr \<lparr>Valid = True,
          ValidationResponse.Message = ''PIN code and city match successfully'',
          Suggestions = [],
          Details = Some \<lparr>PinCode = ''208001'', City = [], State = ''Uttar Pradesh'',
                          Country = ''India'',
                          Details.FormattedAddress = ''Uttar Pradesh 208001, India''\<rparr>\<rparr>"
    by code_simp
  show ?thesis
    using validate_without_city_component[OF h1 h2 h3 h4] by (simp add: e)
qed

section \<open>Ranking\<close>

lemma scoreStep_eq:
  "scoreStep location place acc =
     (if survives location place then acc @ [scoredOf location place] else acc)"
  by (simp add: scoreStep_def survives_def scoredOf_def Let_def)

lemma fold_scoreStep:
  "fold (scoreStep location) places acc = acc @ map (scoredOf location) (survivors location places)"
  by (induction places arbitrary: acc) (simp_all add: survivors_def scoreStep_eq)

lemma scoreLoop_eq: "scoreLoop location places = map (scoredOf location) (survivors location places)"
  by (simp add: scoreLoop_def fold_scoreStep)

lemma selectTop_eq: "selectTop xs = map landmark (take 5 xs)"
proof -
  have "map (\<lambda>i. landmark (xs ! i)) [0..<n] = map landmark (take n xs)" if "n \<le> length xs" for n
    using that by (intro nth_equalityI) simp_all
  then show ?thesis by (simp add: selectTop_def Let_def)
qed

lemma rankLandmarks_eq:
  "rankLandmarks location places =
     map landmark (take 5 (sort_Slice (\<lambda>a b. score a > score b)
                              (map (scoredOf location) (survivors location places))))"
  by (simp add: rankLandmarks_def selectTop_eq scoreLoop_eq)

lemma length_rankLandmarks:
  "length (rankLandmarks location places) = min 5 (length (survivors location places))"
  by (simp add: rankLandmarks_eq length_sort_Slice min.commute)

lemma rankLandmarks_member:
  assumes "l \<in> set (rankLandmarks location places)"
  shows "\<exists>place \<in> set (survivors location places). l = landmark (scoredOf location place)"
proof -
  from assms obtain sl where sl: "sl \<in> set (take 5 (sort_Slice (\<lambda>a b. score a > score b)
        (map (scoredOf location) (survivors location places))))" and l: "l = landmark sl"
    by (auto simp: rankLandmarks_eq)
  from sl have "sl \<in> set (sort_Slice (\<lambda>a b. score a > score b)
        (map (scoredOf location) (survivors location places)))" by (rule in_set_takeD)
  then have "sl \<in> scoredOf location ` set (survivors location places)"
    by (simp add: set_sort_Slice)
  with l show ?thesis by auto
qed

lemma sorted_rankLandmarks:
  "sorted_wrt (\<lambda>a b. PopScore b \<le> PopScore a) (rankLandmarks location places)"
proof -
  let ?xs = "sort_Slice (\<lambda>a b. score a > score b) (map (scoredOf location) (survivors location places))"
  have inv: "PopScore (landmark sl) = score sl" if "sl \<in> set ?xs" for sl
    using that by (auto simp: set_sort_Slice scoredOf_def)
  have "sorted_wrt (\<lambda>a b. score b \<le> score a) ?xs" by (rule sorted_sort_Slice)
  then have "sorted_wrt (\<lambda>a b. PopScore (landmark b) \<le> PopScore (landmark a)) ?xs"
    by (rule sorted_wrt_mono_rel[rotated]) (simp add: inv)
  then have "sorted_wrt (\<lambda>a b. PopScore (landmark b) \<le> PopScore (landmark a)) (take 5 ?xs)"
    by (rule sorted_wrt_take)
  then show ?thesis by (simp add: rankLandmarks_eq sorted_wrt_map)
qed

text \<open>
  The same holds for every rearrangement of the scored entries that puts no higher score
  after a lower one, whatever its order among equal scores.
\<close>

lemma top_five_of_any_order:
  assumes "mset ys = mset (scoreLoop location places)"
    and "sorted_wrt (\<lambda>a b. score b \<le> score a) ys"
  shows "length (selectTop ys) = min 5 (length (survivors location places))
         \<and> sorted_wrt (\<lambda>l l'. PopScore l' \<le> PopScore l) (selectTop ys)
         \<and> (\<forall>l \<in> set (selectTop ys). \<not> Distance l < 10 \<and> UserRatings l \<noteq> 0)"
proof -
  have s: "set ys = scoredOf location ` set (survivors location places)"
    using mset_eq_setD[OF assms(1)] by (simp add: scoreLoop_eq)
  have n: "length ys = length (survivors location places)"
    using mset_eq_length[OF assms(1)] by (simp add: scoreLoop_eq)
  have inv: "PopScore (landmark sl) = score sl" if "sl \<in> set ys" for sl
    using that by (auto simp: s scoredOf_def)
  have "sorted_wrt (\<lambda>a b. PopScore (landmark b) \<le> PopScore (landmark a)) ys"
    using assms(2) by (rule sorted_wrt_mono_rel[rotated]) (simp add: inv)
  then have "sorted_wrt (\<lambda>a b. PopScore (landmark b) \<le> PopScore (landmark a)) (take 5 ys)"
    by (rule sorted_wrt_take)
  then have a: "sorted_wrt (\<lambda>l l'. PopScore l' \<le> PopScore l) (selectTop ys)"
    by (simp add: selectTop_eq sorted_wrt_map)
  have b: "\<not> Distance l < 10 \<and> UserRatings l \<noteq> 0" if "l \<in> set (selectTop ys)" for l
  proof -
    from that obtain sl where "sl \<in> set (take 5 ys)" and l: "l = landmark sl"
      by (auto simp: selectTop_eq)
    then have "sl \<in> set ys" by (auto dest: in_set_takeD)
    then obtain place where "survives location place" and "sl = scoredOf location place"
      by (auto simp: s survivors_def)
    then show ?thesis unfolding l by (simp add: scoredOf_def survives_def)
  qed
  show ?thesis using a b n by (simp add: selectTop_eq min.commute)
qed

lemma GetNearbyLandmarks_found:
  assumes "resolveLocation s trace pinCode city address = (Inr (location, locationAddress), trace1)"
    and "NearbySearch s trace1 (nearbyRequest location radius) = Inr places"
  shows "GetNearbyLandmarks s trace pinCode city address radius =
           (Inr \<lparr>Success = True,
                 LandmarksResponse.Message = foundMessage (rankLandmarks location places) locationAddress,
                 Landmarks = rankLandmarks location places,
                 LandmarksResponse.Location = location\<rparr>,
            trace1 @ [NearbySearchCall (nearbyRequest location radius)])"
  using assms by (simp add: GetNearbyLandmarks_def searchAndRank_def Let_def)

text \<open>The inputs on the equator: what is resolved, what is found, what passes the filter.\<close>

lemma resolve_equator:
  "resolveLocation (clientOf [resultEquator] places) [] [] [] ''Equator Road'' =
     (Inr (\<lparr>Lat = 0, Lng = 0\<rparr>, ''Equator Road''),
      [GeocodeCall \<lparr>Address = ''Equator Road'', Components = []\<rparr>])"
  by (simp add: resolveLocation_def clientOf_def resultEquator_def clean_Equator)

lemma search_equator:
  "NearbySearch (clientOf [resultEquator] places) trace req = Inr places"
  by (simp add: clientOf_def)

lemma survives_far: "survives \<lparr>Lat = 0, Lng = 0\<rparr> (placeAt name 0 120 rating reviews) = (reviews \<noteq> 0)"
  using far_apart by (simp add: survives_def distanceTo_def placeAt_def)

lemma survives_doorstep: "\<not> survives \<lparr>Lat = 0, Lng = 0\<rparr> (placeAt name 0 0 rating reviews)"
  using calculateDistance_self[of 0 0] by (simp add: survives_def distanceTo_def placeAt_def)

lemma survivors_equator:
  "survivors \<lparr>Lat = 0, Lng = 0\<rparr> placesEquator = [placeAt ''museum'' 0 120 4 99, placeAt ''temple'' 0 120 4 99]"
  by (simp add: survivors_def placesEquator_def survives_far survives_doorstep)

lemma survivors_skipped: "survivors \<lparr>Lat = 0, Lng = 0\<rparr> placesSkipped = []"
  by (simp add: survivors_def placesSkipped_def survives_far survives_doorstep)

lemma rank_equator:
  "map Landmark.Name (rankLandmarks \<lparr>Lat = 0, Lng = 0\<rparr> placesEquator) = [''museum'', ''temple'']"
  by (simp add: rankLandmarks_eq survivors_equator sort_Slice_def scoredOf_def placeAt_def
        distanceTo_def)

text \<open>
  C1: for every list of candidates that the search returns, no scored entry and no landmark
  of the response has a distance below 10 metres or a review count of 0; the distance of
  a landmark is the one computed from the resolved location, which the response carries.
\<close>

theorem landmarks_exclude_near_and_unreviewed:
  assumes "resolveLocation s trace pinCode city address = (Inr (location, locationAddress), trace1)"
    and "NearbySearch s trace1 (nearbyRequest location radius) = Inr places"
  shows "(\<forall>sl \<in> set (scoreLoop location places).
            \<not> Distance (landmark sl) < 10 \<and> UserRatings (landmark sl) \<noteq> 0)
         \<and> (\<exists>resp trace'.
               GetNearbyLandmarks s trace pinCode city address radius = (Inr resp, trace')
               \<and> LandmarksResponse.Location resp = location
               \<and> (\<forall>l \<in> set (Landmarks resp).
                     Distance l = calculateDistance (Lat location) (Lng location)
                                    (Lat (Landmark.Location l)) (Lng (Landmark.Location l))
                     \<and> \<not> Distance l < 10 \<and> UserRatings l \<noteq> 0))"
proof -
  have A: "\<forall>sl \<in> set (scoreLoop location places).
            \<not> Distance (landmark sl) < 10 \<and> UserRatings (landmark sl) \<noteq> 0"
    by (auto simp: scoreLoop_eq survivors_def survives_def scoredOf_def)
  have "Distance l = calculateDistance (Lat location) (Lng location)
                                (Lat (Landmark.Location l)) (Lng (Landmark.Location l))
        \<and> \<not> Distance l < 10 \<and> UserRatings l \<noteq> 0"
    if "l \<in> set (rankLandmarks location places)" for l
  proof -
    from that obtain place where "place \<in> set (survivors location places)"
      and l: "l = landmark (scoredOf location place)"
      using rankLandmarks_member by blast
    then have "survives location place" by (simp add: survivors_def)
    then show ?thesis unfolding l by (simp add: scoredOf_def survives_def distanceTo_def)
  qed
  then have B: "\<forall>l \<in> set (rankLandmarks location places).
                 Distance l = calculateDistance (Lat location) (Lng location)
                                (Lat (Landmark.Location l)) (Lng (Landmark.Location l))
                 \<and> \<not> Distance l < 10 \<and> UserRatings l \<noteq> 0"
    by blast
  show ?thesis
    unfolding GetNearbyLandmarks_found[OF assms]
    apply (intro exI conjI)
       apply (rule A)
      apply (rule refl)
     apply simp
    apply (simp only: LandmarksResponse.select_convs)
    apply (rule B)
    done
qed

text \<open>Of four candidates, the one on the doorstep and the one without reviews are left out.\<close>

theorem landmarks_exclude_witness:
  "\<exists>resp trace'.
     GetNearbyLandmarks (clientOf [resultEquator] placesEquator) [] [] [] ''Equator Road'' 500
       = (Inr resp, trace')
     \<and> map Landmark.Name (Landmarks resp) = [''museum'', ''temple'']
     \<and> list_all (\<lambda>l. \<not> Distance l < 10 \<and> UserRatings l \<noteq> 0) (Landmarks resp)"
proof -
  from landmarks_exclude_near_and_unreviewed[OF resolve_equator search_equator, of placesEquator 500]
  obtain resp trace' where
    r: "GetNearbyLandmarks (clientOf [resultEquator] placesEquator) [] [] [] ''Equator Road'' 500
          = (Inr resp, trace')"
    and p: "\<forall>l \<in> set (Landmarks resp). \<not> Distance l < 10 \<and> UserRatings l \<noteq> 0"
    by blast
  have "Landmarks resp = rankLandmarks \<lparr>Lat = 0, Lng = 0\<rparr> placesEquator"
    using r GetNearbyLandmarks_found[OF resolve_equator search_equator, of placesEquator 500] by auto
  then have n: "map Landmark.Name (Landmarks resp) = [''museum'', ''temple'']"
    by (simp add: rank_equator)
  have a: "list_all (\<lambda>l. \<not> Distance l < 10 \<and> UserRatings l \<noteq> 0) (Landmarks resp)"
    using p by (simp add: list_all_iff)
  show ?thesis
    by (rule exI[of _ resp], rule exI[of _ trace']) (intro conjI r n a)
qed

text \<open>
  Exact arithmetic: when every score is a real number, the response has at most 5
  landmarks, exactly the smaller of 5 and the number of candidates that pass the filter,
  and no landmark has a higher popularity score than one before it. The count does not
  depend on the arithmetic. The order does: a distance that is NaN in \<^verbatim>\<open>float64\<close> is not
  below 10, so its candidate passes the filter with a score of NaN, which the comparison
  of line 311 places neither before nor after any other score, and \<^verbatim>\<open>sort.Slice\<close> then
  leaves higher scores behind lower ones.
\<close>

lemma landmarks_top_five_sorted_exact:
  assumes "resolveLocation s trace pinCode city address = (Inr (location, locationAddress), trace1)"
    and "NearbySearch s trace1 (nearbyRequest location radius) = Inr places"
  shows "\<exists>resp trace'. GetNearbyLandmarks s trace pinCode city address radius = (Inr resp, trace')
           \<and> length (Landmarks resp) \<le> 5
           \<and> length (Landmarks resp) = min 5 (length (survivors location places))
           \<and> sorted_wrt (\<lambda>l l'. PopScore l' \<le> PopScore l) (Landmarks resp)"
  unfolding GetNearbyLandmarks_found[OF assms]
  by (simp add: length_rankLandmarks sorted_rankLandmarks)

text \<open>
  C3: every candidate that passes the filter is scored
  \<open>rating * log10 (reviews + 1) / (1 + distance / 1000)\<close>, and every landmark of the
  response carries that score of its own rating, review count and distance, which are
  those of a candidate that passed the filter.
\<close>

theorem landmarks_score_formula:
  assumes "resolveLocation s trace pinCode city address = (Inr (location, locationAddress), trace1)"
    and "NearbySearch s trace1 (nearbyRequest location radius) = Inr places"
  shows "map score (scoreLoop location places) =
           map (\<lambda>place. PlacesSearchResult.Rating place
                          * log 10 (real_of_int (UserRatingsTotal place) + 1)
                          / (1 + distanceTo location place / 1000))
             (survivors location places)
         \<and> (\<exists>resp trace'. GetNearbyLandmarks s trace pinCode city address radius = (Inr resp, trace')
              \<and> (\<forall>l \<in> set (Landmarks resp).
                    PopScore l = Landmark.Rating l * log 10 (real_of_int (UserRatings l) + 1)
                                   / (1 + Distance l / 1000)
                    \<and> (\<exists>place \<in> set (survivors location places).
                          Landmark.Rating l = PlacesSearchResult.Rating place
                          \<and> UserRatings l = UserRatingsTotal place
                          \<and> Distance l = distanceTo location place)))"
proof -
  have a: "map score (scoreLoop location places) =
           map (\<lambda>place. PlacesSearchResult.Rating place
                          * log 10 (real_of_int (UserRatingsTotal place) + 1)
                          / (1 + distanceTo location place / 1000))
             (survivors location places)"
    by (simp add: scoreLoop_eq scoredOf_def popScore_def)
  have b: "PopScore l = Landmark.Rating l * log 10 (real_of_int (UserRatings l) + 1)
                                   / (1 + Distance l / 1000)
                    \<and> (\<exists>place \<in> set (survivors location places).
                          Landmark.Rating l = PlacesSearchResult.Rating place
                          \<and> UserRatings l = UserRatingsTotal place
                          \<and> Distance l = distanceTo location place)"
    if "l \<in> set (rankLandmarks location places)" for l
  proof -
    from that obtain place where p: "place \<in> set (survivors location places)"
      and l: "l = landmark (scoredOf location place)"
      using rankLandmarks_member by blast
    have "PopScore l = Landmark.Rating l * log 10 (real_of_int (UserRatings l) + 1)
                                   / (1 + Distance l / 1000)"
      unfolding l by (simp add: scoredOf_def popScore_def)
    moreover have "Landmark.Rating l = PlacesSearchResult.Rating place
                          \<and> UserRatings l = UserRatingsTotal place
                          \<and> Distance l = distanceTo location place"
      unfolding l by (simp add: scoredOf_def)
    ultimately show ?thesis using p by blast
  qed
  from b have B: "\<forall>l \<in> set (rankLandmarks location places).
                    PopScore l = Landmark.Rating l * log 10 (real_of_int (UserRatings l) + 1)
                                   / (1 + Distance l / 1000)
                    \<and> (\<exists>place \<in> set (survivors location places).
                          Landmark.Rating l = PlacesSearchResult.Rating place
                          \<and> UserRatings l = UserRatingsTotal place
                          \<and> Distance l = distanceTo location place)"
    by blast
  show ?thesis
    unfolding GetNearbyLandmarks_found[OF assms]
    apply (intro exI conjI)
      apply (rule a)
     apply (rule refl)
    apply (simp only: LandmarksResponse.select_convs)
    apply (rule B)
    done
qed

theorem landmarks_score_witness:
  "\<exists>resp trace'.
     GetNearbyLandmarks (clientOf [resultEquator] placesEquator) [] [] [] ''Equator Road'' 500
       = (Inr resp, trace')
     \<and> map (\<lambda>l. (Landmark.Rating l, UserRatings l)) (Landmarks resp) = [(4, 99), (4, 99)]
     \<and> list_all (\<lambda>l. PopScore l = 4 * log 10 100 / (1 + Distance l / 1000)) (Landmarks resp)"
proof -
  from landmarks_score_formula[OF resolve_equator search_equator, of placesEquator 500]
  obtain resp trace' where
    r: "GetNearbyLandmarks (clientOf [resultEquator] placesEquator) [] [] [] ''Equator Road'' 500
          = (Inr resp, trace')"
    and p: "\<forall>l \<in> set (Landmarks resp).
              PopScore l = Landmark.Rating l * log 10 (real_of_int (UserRatings l) + 1)
                             / (1 + Distance l / 1000)"
    by blast
  have "Landmarks resp = rankLandmarks \<lparr>Lat = 0, Lng = 0\<rparr> placesEquator"
    using r GetNearbyLandmarks_found[OF resolve_equator search_equator, of placesEquator 500] by auto
  then have m: "map (\<lambda>l. (Landmark.Rating l, UserRatings l)) (Landmarks resp) = [(4, 99), (4, 99)]"
    by (simp add: rankLandmarks_eq survivors_equator sort_Slice_def scoredOf_def placeAt_def
          distanceTo_def)
  have "PopScore l = 4 * log 10 100 / (1 + Distance l / 1000)" if "l \<in> set (Landmarks resp)" for l
  proof -
    have "(Landmark.Rating l, UserRatings l) \<in> set (map (\<lambda>l. (Landmark.Rating l, UserRatings l)) (Landmarks resp))"
      using that by (simp only: set_map image_eqI)
    then have "Landmark.Rating l = 4" "UserRatings l = 99" unfolding m by simp_all
    with p that show ?thesis by simp
  qed
  then have a: "list_all (\<lambda>l. PopScore l = 4 * log 10 100 / (1 + Distance l / 1000)) (Landmarks resp)"
    by (simp add: list_all_iff)
  show ?thesis
    by (rule exI[of _ resp], rule exI[of _ trace']) (intro conjI r m a)
qed

text \<open>
  C9: when no candidate passes the filter, the response is a success with no landmarks
  whose message says that no landmarks were found and that the search radius should be
  increased.
\<close>

theorem no_survivors_message:
  assumes "resolveLocation s trace pinCode city address = (Inr (location, locationAddress), trace1)"
    and "NearbySearch s trace1 (nearbyRequest location radius) = Inr places"
    and "survivors location places = []"
  shows "GetNearbyLandmarks s trace pinCode city address radius =
           (Inr \<lparr>Success = True,
                 LandmarksResponse.Message =
                   ''No landmarks found in the specified area. Try increasing the search radius.'',
                 Landmarks = [],
                 LandmarksResponse.Location = location\<rparr>,
            trace1 @ [NearbySearchCall (nearbyRequest location radius)])"
proof -
  have "rankLandmarks location places = []"
    using length_rankLandmarks[of location places] assms(3) by simp
  then show ?thesis unfolding GetNearbyLandmarks_found[OF assms(1,2)]
    by (simp add: foundMessage_def)
qed

theorem no_survivors_witness:
  "GetNearbyLandmarks (clientOf [resultEquator] placesSkipped) [] [] [] ''Equator Road'' 500 =
     (Inr \<lparr>Success = True,
           LandmarksResponse.Message =
             ''No landmarks found in the specified area. Try increasing the search radius.'',
           Landmarks = [],
           LandmarksResponse.Location = \<lparr>Lat = 0, Lng = 0\<rparr>\<rparr>,
      [GeocodeCall \<lparr>Address = ''Equator Road'', Components = []\<rparr>,
       NearbySearchCall \<lparr>NearbySearchRequest.Location = \<lparr>Lat = 0, Lng = 0\<rparr>, Radius = 500,
                          Type = ''point_of_interest''\<rparr>])"
  using no_survivors_message[OF resolve_equator search_equator survivors_skipped, of 500]
  by (simp add: nearbyRequest_def uint_def)

section \<open>Postal-code mode\<close>

lemma ValidatePinCodeWithCity_trace:
  "snd (ValidatePinCodeWithCity s trace pinCode city) = trace
   \<or> snd (ValidatePinCodeWithCity s trace pinCode city)
       = trace @ [GeocodeCall (pinCodeRequest (TrimSpace pinCode))]"
  by (simp add: ValidatePinCodeWithCity_def Let_def split: sum.splits)

text \<open>
  C8: with no address and a pin code and a city that are not empty, the validation runs
  first. When it fails with an error, \<^verbatim>\<open>GetNearbyLandmarks\<close> returns that error; when it is
  invalid, \<^verbatim>\<open>GetNearbyLandmarks\<close> returns a response with \<^verbatim>\<open>Success\<close> false and the
  validation's message. In both cases the calls made are those of the validation alone,
  at most its one geocoding of the pin code: no further geocoding and no search.
\<close>

theorem pin_mode_invalid_short_circuit:
  assumes "address = []" and "pinCode \<noteq> []" and "city \<noteq> []"
    and "ValidatePinCodeWithCity s trace pinCode city = (outcome, trace1)"
    and "case outcome of Inl err \<Rightarrow> True | Inr validation \<Rightarrow> \<not> Valid validation"
  shows "GetNearbyLandmarks s trace pinCode city address radius =
           (case outcome of
              Inl err \<Rightarrow> Inl err
            | Inr validation \<Rightarrow>
                Inr \<lparr>Success = False,
                     LandmarksResponse.Message = ValidationResponse.Message validation,
                     Landmarks = [],
                     LandmarksResponse.Location = \<lparr>Lat = 0, Lng = 0\<rparr>\<rparr>,
            trace1)
         \<and> (trace1 = trace \<or> trace1 = trace @ [GeocodeCall (pinCodeRequest (TrimSpace pinCode))])"
proof -
  have t: "trace1 = trace \<or> trace1 = trace @ [GeocodeCall (pinCodeRequest (TrimSpace pinCode))]"
    using ValidatePinCodeWithCity_trace[of s trace pinCode city] assms(4) by simp
  have "GetNearbyLandmarks s trace pinCode city address radius =
           (case outcome of
              Inl err \<Rightarrow> Inl err
            | Inr validation \<Rightarrow>
                Inr \<lparr>Success = False,
                     LandmarksResponse.Message = ValidationResponse.Message validation,
                     Landmarks = [],
                     LandmarksResponse.Location = \<lparr>Lat = 0, Lng = 0\<rparr>\<rparr>,
            trace1)"
    using assms by (cases outcome) (simp_all add: GetNearbyLandmarks_def resolveLocation_def softFailure_def)
  with t show ?thesis by simp
qed

text \<open>A pin code of Kanpur claimed for Delhi, and a client that times out.\<close>

theorem pin_mode_short_circuit_witness:
  "GetNearbyLandmarks (clientOf [resultKanpur] placesEquator) [] ''208001'' ''Delhi'' [] 500 =
     (Inr \<lparr>Success = False,
           LandmarksResponse.Message = ''PIN code 208001 does not belong to delhi'',
           Landmarks = [],
           LandmarksResponse.Location = \<lparr>Lat = 0, Lng = 0\<rparr>\<rparr>,
      [GeocodeCall (pinCodeRequest ''208001'')])
   \<and> GetNearbyLandmarks clientDown [] ''208001'' ''Delhi'' [] 500 =
       (Inl ''geocoding failed: context deadline exceeded'',
        [GeocodeCall (pinCodeRequest ''208001'')])"
proof -
  have v1: "ValidatePinCodeWithCity (clientOf [resultKanpur] placesEquator) [] ''208001'' ''Delhi'' =
     (Inr \<lparr>Valid = False,
           ValidationResponse.Message = ''PIN code 208001 does not belong to delhi'',
           Suggestions = [''kanpur''],
           Details = Some \<lparr>PinCode = ''208001'', City = ''kanpur'', State = ''Uttar Pradesh'',
                           Country = ''India'',
                           Details.FormattedAddress = ''Kanpur, Uttar Pradesh 208001, India''\<rparr>\<rparr>,
      [GeocodeCall (pinCodeRequest ''208001'')])"
    by code_simp
  have v2: "ValidatePinCodeWithCity clientDown [] ''208001'' ''Delhi'' =
     (Inl ''geocoding failed: context deadline exceeded'', [GeocodeCall (pinCodeRequest ''208001'')])"
    by code_simp
  have a: "GetNearbyLandmarks (clientOf [resultKanpur] placesEquator) [] ''208001'' ''Delhi'' [] 500 =
     (Inr \<lparr>Success = False,
           LandmarksResponse.Message = ''PIN code 208001 does not belong to delhi'',
           Landmarks = [],
           LandmarksResponse.Location = \<lparr>Lat = 0, Lng = 0\<rparr>\<rparr>,
      [GeocodeCall (pinCodeRequest ''208001'')])"
    using pin_mode_invalid_short_circuit[OF _ _ _ v1, of "[]" 500] by simp
  have b: "GetNearbyLandmarks clientDown [] ''208001'' ''Delhi'' [] 500 =
       (Inl ''geocoding failed: context deadline exceeded'',
        [GeocodeCall (pinCodeRequest ''208001'')])"
    using pin_mode_invalid_short_circuit[OF _ _ _ v2, of "[]" 500] by simp
  from a b show ?thesis by (rule conjI)
qed

end
